theory Spec2Isabelle
  imports Main "HOL-Library.AList" "HOL-Library.Code_Target_Nat"
begin

section \<open>Python values\<close>

text \<open>
  A Python \<open>str\<close> is a sequence of Unicode code points, so \<open>len\<close> counts code
  points and \<open>strip\<close>, \<open>isalnum\<close> and slicing work on them. A code point is a
  natural number; \<open>str\<close> turns an ASCII literal of the source into one.
  A \<open>bytes\<close> object is a list of numbers below 256.
\<close>

type_synonym pystr = "nat list"
type_synonym pybytes = "nat list"

definition ord :: "char \<Rightarrow> nat" where
  "ord c = of_char c"

definition str :: "string \<Rightarrow> pystr" where
  "str s = map ord s"

definition quoted :: "pystr \<Rightarrow> pystr" where
  "quoted s = [0x27] @ s @ [0x27]"

text \<open>
  A \<open>float\<close> is kept as the decimal literal it was read from: sign, digits and
  decimal exponent, the double being the correctly rounded value of
  \<open>digits * 10 ^ exponent\<close>. The program only ever asks whether a float is zero.
  A double is zero when the magnitude is at most \<open>2 ^ -1075\<close>, half of the smallest
  subnormal (the tie goes to the even mantissa, which is zero).
\<close>

datatype pyfloat = Finite bool nat int | Infinite bool | NaN

fun float_is_zero :: "pyfloat \<Rightarrow> bool" where
  "float_is_zero (Finite neg m e) =
     (m = 0 \<or> (e < 0 \<and> m * 2 ^ 1075 \<le> 10 ^ nat (- e)))"
| "float_is_zero (Infinite neg) = False"
| "float_is_zero NaN = False"

text \<open>The objects \<open>json.loads\<close> builds, which are also the objects of an event.\<close>

datatype pyobj =
    PyNone
  | PyBool bool
  | PyInt int
  | PyFloat pyfloat
  | PyStr pystr
  | PyList "pyobj list"
  | PyDict "(pystr \<times> pyobj) list"

type_synonym pydict = "(pystr \<times> pyobj) list"

text \<open>Truth value testing, as \<open>or\<close>, \<open>not\<close> and \<open>if\<close> apply it.\<close>

fun truthy :: "pyobj \<Rightarrow> bool" where
  "truthy PyNone = False"
| "truthy (PyBool b) = b"
| "truthy (PyInt i) = (i \<noteq> 0)"
| "truthy (PyFloat f) = (\<not> float_is_zero f)"
| "truthy (PyStr s) = (s \<noteq> [])"
| "truthy (PyList xs) = (xs \<noteq> [])"
| "truthy (PyDict d) = (d \<noteq> [])"

text \<open>\<open>a or b\<close>: the first operand when it is truthy, the second otherwise.\<close>

definition py_or :: "pyobj \<Rightarrow> pyobj \<Rightarrow> pyobj" where
  "py_or a b = (if truthy a then a else b)"

fun type_name :: "pyobj \<Rightarrow> pystr" where
  "type_name PyNone = str ''NoneType''"
| "type_name (PyBool b) = str ''bool''"
| "type_name (PyInt i) = str ''int''"
| "type_name (PyFloat f) = str ''float''"
| "type_name (PyStr s) = str ''str''"
| "type_name (PyList xs) = str ''list''"
| "type_name (PyDict d) = str ''dict''"

text \<open>An exception: its class and the text \<open>str(e)\<close> gives.\<close>

datatype exn = Exn (exn_class: string) (exn_str: pystr)

definition and_then :: "exn + 'a \<Rightarrow> ('a \<Rightarrow> exn + 'b) \<Rightarrow> exn + 'b" where
  "and_then r f = (case r of Inl e \<Rightarrow> Inl e | Inr x \<Rightarrow> f x)"

definition AttributeError :: "pyobj \<Rightarrow> string \<Rightarrow> exn" where
  "AttributeError v attr =
     Exn ''AttributeError''
       (quoted (type_name v) @ str '' object has no attribute '' @ quoted (str attr))"

text \<open>
  \<open>d.get(key)\<close>: the value of the key in a dict, \<open>None\<close> when the key is missing.
  Any other object has no attribute \<open>get\<close>.
\<close>

definition dict_get :: "pydict \<Rightarrow> pystr \<Rightarrow> pyobj" where
  "dict_get d k = (case map_of d k of None \<Rightarrow> PyNone | Some v \<Rightarrow> v)"

fun py_get :: "pyobj \<Rightarrow> pystr \<Rightarrow> exn + pyobj" where
  "py_get (PyDict d) k = Inr (dict_get d k)"
| "py_get v k = Inl (AttributeError v ''get'')"

subsection \<open>String methods\<close>

text \<open>
  \<open>str.isspace\<close> on one code point: the white space of the Unicode character database
  (the ASCII control characters 9 to 13 and 28 to 31, the space, and the separators
  outside ASCII).
\<close>

definition isspace :: "nat \<Rightarrow> bool" where
  "isspace c \<longleftrightarrow>
     (0x09 \<le> c \<and> c \<le> 0x0D) \<or> (0x1C \<le> c \<and> c \<le> 0x20) \<or> c = 0x85 \<or> c = 0xA0 \<or>
     c = 0x1680 \<or> (0x2000 \<le> c \<and> c \<le> 0x200A) \<or> c = 0x2028 \<or> c = 0x2029 \<or>
     c = 0x202F \<or> c = 0x205F \<or> c = 0x3000"

definition strip :: "pystr \<Rightarrow> pystr" where
  "strip s = rev (dropWhile isspace (rev (dropWhile isspace s)))"

fun py_strip :: "pyobj \<Rightarrow> exn + pystr" where
  "py_strip (PyStr s) = Inr (strip s)"
| "py_strip v = Inl (AttributeError v ''strip'')"

text \<open>
  \<open>str.isalnum\<close> on one code point. On ASCII these are the letters and the digits.
  Above ASCII the answer is the character database's, which the model takes as a
  parameter \<open>db\<close>.
\<close>

definition ascii_isalnum :: "nat \<Rightarrow> bool" where
  "ascii_isalnum c \<longleftrightarrow>
     (ord CHR ''0'' \<le> c \<and> c \<le> ord CHR ''9'') \<or>
     (ord CHR ''A'' \<le> c \<and> c \<le> ord CHR ''Z'') \<or>
     (ord CHR ''a'' \<le> c \<and> c \<le> ord CHR ''z'')"

definition isalnum :: "(nat \<Rightarrow> bool) \<Rightarrow> nat \<Rightarrow> bool" where
  "isalnum db c = (if c < 128 then ascii_isalnum c else db c)"

subsection \<open>Numbers as text\<close>

text \<open>The decimal digits of a natural number, and zero padding to a width.\<close>

function decimal :: "nat \<Rightarrow> pystr" where
  "decimal n =
     (if n < 10 then [ord CHR ''0'' + n]
      else decimal (n div 10) @ [ord CHR ''0'' + n mod 10])"
  by pat_completeness auto
termination
  by (relation "measure id") auto

declare decimal.simps [simp del]

definition int_repr :: "int \<Rightarrow> pystr" where
  "int_repr i = (if i < 0 then str ''-'' @ decimal (nat (- i)) else decimal (nat i))"

definition zero_pad :: "nat \<Rightarrow> pystr \<Rightarrow> pystr" where
  "zero_pad width s = replicate (width - length s) (ord CHR ''0'') @ s"

definition hex_digit :: "nat \<Rightarrow> nat" where
  "hex_digit d = (if d < 10 then ord CHR ''0'' + d else ord CHR ''a'' + (d - 10))"

text \<open>The format \<open>{0:04x}\<close> on a number below \<open>0x10000\<close>.\<close>

definition hex4 :: "nat \<Rightarrow> pystr" where
  "hex4 n = [hex_digit (n div 4096 mod 16), hex_digit (n div 256 mod 16),
             hex_digit (n div 16 mod 16), hex_digit (n mod 16)]"

section \<open>Library functions the handler calls\<close>

subsection \<open>base64.b64decode\<close>

text \<open>
  \<open>b64decode(s)\<close> with the default \<open>validate=False\<close>. A \<open>str\<close> argument is encoded
  as ASCII first (a code point above 127 raises \<open>ValueError\<close>), an object that is
  neither text nor bytes raises \<open>TypeError\<close>. Then \<open>binascii.a2b_base64\<close> runs in its
  lenient mode: characters outside the alphabet are skipped, four characters give three
  bytes, a complete pad sequence ends the decoding, and input that stops inside a group
  raises \<open>binascii.Error\<close>. The loop keeps the position in the group \<open>quad_pos\<close>, the
  bits left over \<open>leftchar\<close> and the count of pad characters \<open>pads\<close>.
\<close>

definition b64_value :: "nat \<Rightarrow> nat option" where
  "b64_value c =
     (if ord CHR ''A'' \<le> c \<and> c \<le> ord CHR ''Z'' then Some (c - ord CHR ''A'')
      else if ord CHR ''a'' \<le> c \<and> c \<le> ord CHR ''z'' then Some (c - ord CHR ''a'' + 26)
      else if ord CHR ''0'' \<le> c \<and> c \<le> ord CHR ''9'' then Some (c - ord CHR ''0'' + 52)
      else if c = ord CHR ''+'' then Some 62
      else if c = ord CHR ''/'' then Some 63
      else None)"

definition binascii_Error :: "pystr \<Rightarrow> exn" where
  "binascii_Error msg = Exn ''binascii.Error'' msg"

fun a2b_base64 :: "pystr \<Rightarrow> nat \<Rightarrow> nat \<Rightarrow> nat \<Rightarrow> pybytes \<Rightarrow> exn + pybytes" where
  "a2b_base64 [] quad_pos leftchar pads out =
     (if quad_pos = 0 then Inr out
      else if quad_pos = 1 then
        Inl (binascii_Error
          (str ''Invalid base64-encoded string: number of data characters ('' @
           decimal (length out div 3 * 4 + 1) @
           str '') cannot be 1 more than a multiple of 4''))
      else Inl (binascii_Error (str ''Incorrect padding'')))"
| "a2b_base64 (c # cs) quad_pos leftchar pads out =
     (if c = ord CHR ''='' then
        (if quad_pos \<ge> 2 \<and> quad_pos + (pads + 1) \<ge> 4 then Inr out
         else a2b_base64 cs quad_pos leftchar (if quad_pos \<ge> 2 then pads + 1 else pads) out)
      else
        (case b64_value c of
           None \<Rightarrow> a2b_base64 cs quad_pos leftchar pads out
         | Some v \<Rightarrow>
             (if quad_pos = 0 then a2b_base64 cs 1 v 0 out
              else if quad_pos = 1 then
                a2b_base64 cs 2 (v mod 16) 0 (out @ [leftchar * 4 + v div 16])
              else if quad_pos = 2 then
                a2b_base64 cs 3 (v mod 4) 0 (out @ [leftchar * 16 + v div 4])
              else a2b_base64 cs 0 0 0 (out @ [leftchar * 64 + v]))))"

fun b64decode :: "pyobj \<Rightarrow> exn + pybytes" where
  "b64decode (PyStr s) =
     (if \<exists>c \<in> set s. c \<ge> 128 then
        Inl (Exn ''ValueError'' (str ''string argument should contain only ASCII characters''))
      else a2b_base64 s 0 0 0 [])"
| "b64decode v =
     Inl (Exn ''TypeError''
       (str ''argument should be a bytes-like object or ASCII string, not '' @
        quoted (type_name v)))"

subsection \<open>bytes.decode and str.encode\<close>

text \<open>
  \<open>b.decode("utf-8", errors="replace")\<close> never raises. A well-formed sequence gives its
  code point. An ill-formed one gives U+FFFD for the longest prefix that could still
  start a well-formed sequence (one byte at least), and decoding resumes behind it.
  Overlong forms, surrogates and values above U+10FFFF are ill-formed from their second
  byte.
\<close>

definition is_continuation :: "nat \<Rightarrow> bool" where
  "is_continuation b \<longleftrightarrow> 0x80 \<le> b \<and> b \<le> 0xBF"

text \<open>Whether \<open>c\<close> may follow the lead byte \<open>b\<close> of a sequence of three or four bytes.\<close>

definition second_byte_ok :: "nat \<Rightarrow> nat \<Rightarrow> bool" where
  "second_byte_ok b c \<longleftrightarrow>
     is_continuation c \<and>
     \<not> (b = 0xE0 \<and> c < 0xA0) \<and> \<not> (b = 0xED \<and> c \<ge> 0xA0) \<and>
     \<not> (b = 0xF0 \<and> c < 0x90) \<and> \<not> (b = 0xF4 \<and> c \<ge> 0x90)"

fun decode_utf8_replace :: "pybytes \<Rightarrow> pystr" where
  "decode_utf8_replace [] = []"
| "decode_utf8_replace (b # bs) =
     (if b < 0x80 then b # decode_utf8_replace bs
      else if b < 0xC2 \<or> b > 0xF4 then 0xFFFD # decode_utf8_replace bs
      else if b < 0xE0 then
        (case bs of
           [] \<Rightarrow> [0xFFFD]
         | c1 # r1 \<Rightarrow>
             if is_continuation c1
             then ((b - 0xC0) * 64 + (c1 - 0x80)) # decode_utf8_replace r1
             else 0xFFFD # decode_utf8_replace bs)
      else if b < 0xF0 then
        (case bs of
           [] \<Rightarrow> [0xFFFD]
         | c1 # r1 \<Rightarrow>
             if \<not> second_byte_ok b c1 then 0xFFFD # decode_utf8_replace bs
             else
               (case r1 of
                  [] \<Rightarrow> [0xFFFD]
                | c2 # r2 \<Rightarrow>
                    if is_continuation c2
                    then (((b - 0xE0) * 64 + (c1 - 0x80)) * 64 + (c2 - 0x80))
                           # decode_utf8_replace r2
                    else 0xFFFD # decode_utf8_replace r1))
      else
        (case bs of
           [] \<Rightarrow> [0xFFFD]
         | c1 # r1 \<Rightarrow>
             if \<not> second_byte_ok b c1 then 0xFFFD # decode_utf8_replace bs
             else
               (case r1 of
                  [] \<Rightarrow> [0xFFFD]
                | c2 # r2 \<Rightarrow>
                    if \<not> is_continuation c2 then 0xFFFD # decode_utf8_replace r1
                    else
                      (case r2 of
                         [] \<Rightarrow> [0xFFFD]
                       | c3 # r3 \<Rightarrow>
                           if is_continuation c3
                           then ((((b - 0xF0) * 64 + (c1 - 0x80)) * 64 + (c2 - 0x80)) * 64
                                   + (c3 - 0x80)) # decode_utf8_replace r3
                           else 0xFFFD # decode_utf8_replace r2))))"

text \<open>
  \<open>s.encode("utf-8")\<close> raises \<open>UnicodeEncodeError\<close> at the first surrogate code point;
  the error names the whole run of surrogates that starts there.
\<close>

definition is_surrogate :: "nat \<Rightarrow> bool" where
  "is_surrogate c \<longleftrightarrow> 0xD800 \<le> c \<and> c \<le> 0xDFFF"

definition UnicodeEncodeError :: "pystr \<Rightarrow> nat \<Rightarrow> exn" where
  "UnicodeEncodeError s start =
     (let run = length (takeWhile is_surrogate (drop start s)) in
      Exn ''UnicodeEncodeError''
        (quoted (str ''utf-8'') @
         (if run = 1 then
            str '' codec can't encode character '' @
            quoted ([0x5C] @ str ''u'' @ hex4 (s ! start)) @
            str '' in position '' @ decimal start
          else
            str '' codec can't encode characters in position '' @ decimal start @
            str ''-'' @ decimal (start + run - 1)) @
         str '': surrogates not allowed''))"

definition encode_char :: "nat \<Rightarrow> pybytes" where
  "encode_char c =
     (if c < 0x80 then [c]
      else if c < 0x800 then [0xC0 + c div 64, 0x80 + c mod 64]
      else if c < 0x10000 then [0xE0 + c div 4096, 0x80 + c div 64 mod 64, 0x80 + c mod 64]
      else [0xF0 + c div 262144, 0x80 + c div 4096 mod 64, 0x80 + c div 64 mod 64,
            0x80 + c mod 64])"

definition encode_utf8 :: "pystr \<Rightarrow> exn + pybytes" where
  "encode_utf8 s =
     (case find (\<lambda>i. is_surrogate (s ! i)) [0 ..< length s] of
        Some i \<Rightarrow> Inl (UnicodeEncodeError s i)
      | None \<Rightarrow> Inr (concat (map encode_char s)))"


subsection \<open>json.loads\<close>

text \<open>
  \<open>json.loads\<close> on text, with the default decoder: it either builds an object or raises
  \<open>JSONDecodeError\<close>, which is \<open>None\<close> here. The text is first cut into tokens (the
  punctuation, and the scalars: strings, numbers and the named constants), with white
  space between them dropped; a pushdown automaton then builds the object from the
  tokens. The two limits of the interpreter, on the nesting depth and on the number
  of digits of an integer, are configuration and are not part of the model.
\<close>

datatype token = LBrace | RBrace | LBracket | RBracket | Colon | Comma | Scalar pyobj

definition hex_value :: "nat \<Rightarrow> nat option" where
  "hex_value c =
     (if ord CHR ''0'' \<le> c \<and> c \<le> ord CHR ''9'' then Some (c - ord CHR ''0'')
      else if ord CHR ''a'' \<le> c \<and> c \<le> ord CHR ''f'' then Some (c - ord CHR ''a'' + 10)
      else if ord CHR ''A'' \<le> c \<and> c \<le> ord CHR ''F'' then Some (c - ord CHR ''A'' + 10)
      else None)"

text \<open>The four hexadecimal digits of a \<open>\uXXXX\<close> escape, and the text behind them.\<close>

fun scan_hex4 :: "pystr \<Rightarrow> (nat \<times> pystr) option" where
  "scan_hex4 (a # b # c # d # rest) =
     (case (hex_value a, hex_value b, hex_value c, hex_value d) of
        (Some w, Some x, Some y, Some z) \<Rightarrow> Some (((w * 16 + x) * 16 + y) * 16 + z, rest)
      | _ \<Rightarrow> None)"
| "scan_hex4 _ = None"

text \<open>
  An escaped high surrogate directly followed by an escaped low surrogate is one code
  point above U+FFFF; any other surrogate stays as it is.
\<close>

definition low_surrogate_escape :: "nat \<Rightarrow> pystr \<Rightarrow> (nat \<times> pystr) option" where
  "low_surrogate_escape hi s =
     (if 0xD800 \<le> hi \<and> hi \<le> 0xDBFF then
        (case s of
           bs # u # rest \<Rightarrow>
             if bs = 0x5C \<and> u = ord CHR ''u'' then
               (case scan_hex4 rest of
                  Some (lo, rest') \<Rightarrow>
                    if 0xDC00 \<le> lo \<and> lo \<le> 0xDFFF
                    then Some (0x10000 + (hi - 0xD800) * 1024 + (lo - 0xDC00), rest')
                    else None
                | None \<Rightarrow> None)
             else None
         | _ \<Rightarrow> None)
      else None)"

definition unescape :: "nat \<Rightarrow> nat option" where
  "unescape e =
     (if e = 0x22 then Some 0x22
      else if e = 0x5C then Some 0x5C
      else if e = ord CHR ''/'' then Some (ord CHR ''/'')
      else if e = ord CHR ''b'' then Some 0x08
      else if e = ord CHR ''f'' then Some 0x0C
      else if e = ord CHR ''n'' then Some 0x0A
      else if e = ord CHR ''r'' then Some 0x0D
      else if e = ord CHR ''t'' then Some 0x09
      else None)"

lemma scan_hex4_shorter: "scan_hex4 s = Some (u, r) \<Longrightarrow> length r < length s"
  by (induction s rule: scan_hex4.induct) (auto split: option.splits)

lemma low_surrogate_escape_shorter:
  "low_surrogate_escape hi s = Some (u, r) \<Longrightarrow> length r < length s"
  by (auto simp: low_surrogate_escape_def split: if_splits list.splits option.splits
           dest: scan_hex4_shorter)

text \<open>
  The body of a string literal, from behind the opening quote up to the closing one:
  the decoded string and the text behind the literal. A control character, an unknown
  escape and a missing closing quote are errors.
\<close>

function scanstring :: "pystr \<Rightarrow> pystr \<Rightarrow> (pystr \<times> pystr) option" where
  "scanstring [] acc = None"
| "scanstring (c # cs) acc =
     (if c = 0x22 then Some (acc, cs)
      else if c = 0x5C then
        (case cs of
           [] \<Rightarrow> None
         | e # es \<Rightarrow>
             if e = ord CHR ''u'' then
               (case scan_hex4 es of
                  None \<Rightarrow> None
                | Some (u, r) \<Rightarrow>
                    (case low_surrogate_escape u r of
                       Some (u', r') \<Rightarrow> scanstring r' (acc @ [u'])
                     | None \<Rightarrow> scanstring r (acc @ [u])))
             else
               (case unescape e of
                  None \<Rightarrow> None
                | Some x \<Rightarrow> scanstring es (acc @ [x])))
      else if c < 0x20 then None
      else scanstring cs (acc @ [c]))"
  by pat_completeness auto
termination
  by (relation "measure (\<lambda>(s, acc). length s)")
     (auto dest!: scan_hex4_shorter low_surrogate_escape_shorter)

lemma scanstring_shorter: "scanstring s acc = Some (v, r) \<Longrightarrow> length r < length s"
proof (induction s acc arbitrary: v r rule: scanstring.induct)
  case (1 acc)
  then show ?case by simp
next
  case (2 c cs acc)
  show ?case
  proof (cases "c = 0x22")
    case True
    with "2.prems" show ?thesis by simp
  next
    case quote: False
    show ?thesis
    proof (cases "c = 0x5C")
      case False
      with quote "2.prems" have "scanstring cs (acc @ [c]) = Some (v, r)"
        by (simp split: if_splits)
      with "2.IH"(4) quote False "2.prems" have "length r < length cs"
        by (auto split: if_splits)
      then show ?thesis by simp
    next
      case True
      with "2.prems" obtain e es where cs: "cs = e # es"
        by (cases cs) auto
      show ?thesis
      proof (cases "e = ord CHR ''u''")
        case False
        with True quote cs "2.prems" obtain x where
          x: "unescape e = Some x" "scanstring es (acc @ [x]) = Some (v, r)"
          by (auto split: option.splits)
        with "2.IH"(3) quote True cs False have "length r < length es"
          by blast
        with cs show ?thesis by simp
      next
        case u: True
        with True quote cs "2.prems" obtain w t where
          h: "scan_hex4 es = Some (w, t)"
          by (auto split: option.splits)
        then have t: "length t < length es"
          by (rule scan_hex4_shorter)
        show ?thesis
        proof (cases "low_surrogate_escape w t")
          case None
          with True quote cs u h "2.prems" have "scanstring t (acc @ [w]) = Some (v, r)"
            by simp
          with "2.IH"(1) quote True cs u h None have "length r < length t"
            by blast
          with t cs show ?thesis by simp
        next
          case (Some p)
          obtain w' t' where p: "p = (w', t')" by (cases p)
          with Some have t': "length t' < length t"
            by (auto dest: low_surrogate_escape_shorter)
          from True quote cs u h Some p "2.prems"
          have "scanstring t' (acc @ [w']) = Some (v, r)"
            by simp
          with "2.IH"(2) quote True cs u h Some p have "length r < length t'"
            by blast
          with t t' cs show ?thesis by simp
        qed
      qed
    qed
  qed
qed

text \<open>
  A number: an optional minus, the integer digits (a leading zero stands alone), an
  optional fraction of a point and digits, an optional exponent. With a fraction or
  an exponent it is a float, otherwise an int.
\<close>

definition isdigit :: "nat \<Rightarrow> bool" where
  "isdigit c \<longleftrightarrow> ord CHR ''0'' \<le> c \<and> c \<le> ord CHR ''9''"

definition digits_value :: "pystr \<Rightarrow> nat" where
  "digits_value ds = foldl (\<lambda>n d. n * 10 + (d - ord CHR ''0'')) 0 ds"

definition scan_fraction :: "pystr \<Rightarrow> pystr \<times> pystr" where
  "scan_fraction s =
     (case s of
        p # d # rest \<Rightarrow>
          if p = ord CHR ''.'' \<and> isdigit d
          then (d # takeWhile isdigit rest, dropWhile isdigit rest)
          else ([], s)
      | _ \<Rightarrow> ([], s))"

definition scan_exponent :: "pystr \<Rightarrow> int option \<times> pystr" where
  "scan_exponent s =
     (case s of
        [] \<Rightarrow> (None, s)
      | e # rest \<Rightarrow>
          if e = ord CHR ''e'' \<or> e = ord CHR ''E'' then
            (let (neg, rest') =
                   (case rest of
                      [] \<Rightarrow> (False, rest)
                    | sg # r \<Rightarrow>
                        if sg = ord CHR ''-'' then (True, r)
                        else if sg = ord CHR ''+'' then (False, r)
                        else (False, rest));
                 ds = takeWhile isdigit rest'
             in if ds = [] then (None, s)
                else (Some (if neg then - int (digits_value ds) else int (digits_value ds)),
                      dropWhile isdigit rest'))
          else (None, s))"

definition match_number :: "pystr \<Rightarrow> (pyobj \<times> pystr) option" where
  "match_number s =
     (let (neg, s1) =
            (case s of
               [] \<Rightarrow> (False, s)
             | c # r \<Rightarrow> if c = ord CHR ''-'' then (True, r) else (False, s))
      in case s1 of
           [] \<Rightarrow> None
         | d # r \<Rightarrow>
             if \<not> isdigit d then None
             else
               (let (ip, s2) =
                      (if d = ord CHR ''0'' then ([d], r)
                       else (d # takeWhile isdigit r, dropWhile isdigit r));
                    (fp, s3) = scan_fraction s2;
                    (ex, s4) = scan_exponent s3
                in if fp = [] \<and> ex = None then
                     Some (PyInt (if neg then - int (digits_value ip) else int (digits_value ip)),
                           s4)
                   else
                     Some (PyFloat (Finite neg (digits_value (ip @ fp))
                                      ((case ex of None \<Rightarrow> 0 | Some x \<Rightarrow> x) - int (length fp))),
                           s4)))"

text \<open>The named constants.\<close>

definition constants :: "(string \<times> pyobj) list" where
  "constants =
     [(''null'', PyNone), (''true'', PyBool True), (''false'', PyBool False),
      (''NaN'', PyFloat NaN), (''Infinity'', PyFloat (Infinite False)),
      (''-Infinity'', PyFloat (Infinite True))]"

definition match_constant :: "pystr \<Rightarrow> (pyobj \<times> pystr) option" where
  "match_constant s =
     (case find (\<lambda>(name, v). take (length name) s = str name) constants of
        None \<Rightarrow> None
      | Some (name, v) \<Rightarrow> Some (v, drop (length name) s))"


lemma match_constant_shorter: "match_constant s = Some (v, r) \<Longrightarrow> length r < length s"
proof -
  assume a: "match_constant s = Some (v, r)"
  then obtain name where f: "find (\<lambda>(name, v). take (length name) s = str name) constants
      = Some (name, v)" and r: "r = drop (length name) s"
    by (auto simp: match_constant_def split: option.splits)
  from f have "(name, v) \<in> set constants" and t: "take (length name) s = str name"
    by (auto simp: find_Some_iff in_set_conv_nth)
  then have "name \<noteq> []"
    by (auto simp: constants_def)
  moreover from t have "length name \<le> length s"
    by (metis length_map length_take min.cobounded1 min.commute str_def)
  ultimately show ?thesis
    using r by (cases name) auto
qed

lemma scan_fraction_le: "scan_fraction s = (fp, r) \<Longrightarrow> length r \<le> length s"
  by (auto simp: scan_fraction_def le_SucI length_dropWhile_le
           split: list.splits if_splits)

lemma scan_exponent_le: "scan_exponent s = (ex, r) \<Longrightarrow> length r \<le> length s"
  by (auto simp: scan_exponent_def Let_def le_SucI length_dropWhile_le
           split: list.splits if_splits prod.splits
           intro: order_trans [OF length_dropWhile_le])

lemma match_number_shorter: "match_number s = Some (v, r) \<Longrightarrow> length r < length s"
proof -
  assume a: "match_number s = Some (v, r)"
  obtain neg s1 where s1: "(case s of [] \<Rightarrow> (False, s)
      | c # r \<Rightarrow> if c = ord CHR ''-'' then (True, r) else (False, s)) = (neg, s1)"
    by fastforce
  then have l1: "length s1 \<le> length s"
    by (auto split: list.splits if_splits)
  from a s1 obtain d t where t: "s1 = d # t"
    by (cases s1) (auto simp: match_number_def)
  obtain ip s2 where s2: "(if d = ord CHR ''0'' then ([d], t)
      else (d # takeWhile isdigit t, dropWhile isdigit t)) = (ip, s2)"
    by fastforce
  then have l2: "length s2 \<le> length t"
    by (auto simp: length_dropWhile_le split: if_splits)
  obtain fp s3 where s3: "scan_fraction s2 = (fp, s3)" by fastforce
  obtain ex s4 where s4: "scan_exponent s3 = (ex, s4)" by fastforce
  from a s1 t s2 s3 s4 have "r = s4"
    by (auto simp: match_number_def split: if_splits)
  with l1 l2 t scan_fraction_le [OF s3] scan_exponent_le [OF s4] show ?thesis
    by simp
qed

text \<open>
  A scalar at the head of the text: a string literal, a named constant, or a number.
\<close>

definition scan_scalar :: "pystr \<Rightarrow> (pyobj \<times> pystr) option" where
  "scan_scalar s =
     (case s of
        [] \<Rightarrow> None
      | c # cs \<Rightarrow>
          if c = 0x22 then
            (case scanstring cs [] of None \<Rightarrow> None | Some (v, r) \<Rightarrow> Some (PyStr v, r))
          else
            (case match_constant s of
               Some x \<Rightarrow> Some x
             | None \<Rightarrow> match_number s))"

lemma scan_scalar_shorter: "scan_scalar s = Some (v, r) \<Longrightarrow> length r < length s"
  by (auto simp: scan_scalar_def less_SucI
           split: list.splits if_splits option.splits
           dest: scanstring_shorter match_constant_shorter match_number_shorter)

definition json_whitespace :: "nat \<Rightarrow> bool" where
  "json_whitespace c \<longleftrightarrow> c = 0x20 \<or> c = 0x09 \<or> c = 0x0A \<or> c = 0x0D"

definition punctuation :: "nat \<Rightarrow> token option" where
  "punctuation c =
     (if c = ord CHR ''{'' then Some LBrace
      else if c = ord CHR ''}'' then Some RBrace
      else if c = ord CHR ''['' then Some LBracket
      else if c = ord CHR '']'' then Some RBracket
      else if c = ord CHR '':'' then Some Colon
      else if c = ord CHR '','' then Some Comma
      else None)"

function lex :: "pystr \<Rightarrow> token list option" where
  "lex [] = Some []"
| "lex (c # cs) =
     (if json_whitespace c then lex cs
      else
        (case punctuation c of
           Some t \<Rightarrow> map_option ((#) t) (lex cs)
         | None \<Rightarrow>
             (case scan_scalar (c # cs) of
                None \<Rightarrow> None
              | Some (v, r) \<Rightarrow> map_option ((#) (Scalar v)) (lex r))))"
  by pat_completeness auto
termination
  by (relation "measure length") (auto dest: scan_scalar_shorter)

text \<open>
  The automaton. The stack holds the containers that wait for the value being read: a
  list with the elements it has, or a dict with the key whose value is being read. The
  mode says what may come next. A key that occurs again replaces the value it had, as
  assignment to a dict does.
\<close>

datatype frame = InList "pyobj list" | InDict pydict pystr

datatype mode =
    WantValue
  | ListOpen
  | DictOpen
  | AfterElement "pyobj list"
  | WantKey pydict
  | WantColon pydict pystr
  | AfterMember pydict
  | Finished pyobj

fun place :: "pyobj \<Rightarrow> frame list \<Rightarrow> frame list \<times> mode" where
  "place v [] = ([], Finished v)"
| "place v (InList xs # st) = (st, AfterElement (xs @ [v]))"
| "place v (InDict d k # st) = (st, AfterMember (AList.update k v d))"

fun value_step :: "frame list \<Rightarrow> token \<Rightarrow> (frame list \<times> mode) option" where
  "value_step st (Scalar v) = Some (place v st)"
| "value_step st LBracket = Some (st, ListOpen)"
| "value_step st LBrace = Some (st, DictOpen)"
| "value_step st t = None"

fun key_step :: "frame list \<Rightarrow> pydict \<Rightarrow> token \<Rightarrow> (frame list \<times> mode) option" where
  "key_step st d (Scalar (PyStr k)) = Some (st, WantColon d k)"
| "key_step st d t = None"

fun step :: "frame list \<times> mode \<Rightarrow> token \<Rightarrow> (frame list \<times> mode) option" where
  "step (st, WantValue) t = value_step st t"
| "step (st, ListOpen) RBracket = Some (place (PyList []) st)"
| "step (st, ListOpen) t = value_step (InList [] # st) t"
| "step (st, DictOpen) RBrace = Some (place (PyDict []) st)"
| "step (st, DictOpen) t = key_step st [] t"
| "step (st, AfterElement xs) Comma = Some (InList xs # st, WantValue)"
| "step (st, AfterElement xs) RBracket = Some (place (PyList xs) st)"
| "step (st, AfterElement xs) t = None"
| "step (st, WantKey d) t = key_step st d t"
| "step (st, WantColon d k) Colon = Some (InDict d k # st, WantValue)"
| "step (st, WantColon d k) t = None"
| "step (st, AfterMember d) Comma = Some (st, WantKey d)"
| "step (st, AfterMember d) RBrace = Some (place (PyDict d) st)"
| "step (st, AfterMember d) t = None"
| "step (st, Finished v) t = None"

fun run :: "frame list \<times> mode \<Rightarrow> token list \<Rightarrow> (frame list \<times> mode) option" where
  "run cfg [] = Some cfg"
| "run cfg (t # ts) = (case step cfg t of None \<Rightarrow> None | Some cfg' \<Rightarrow> run cfg' ts)"

definition parse :: "token list \<Rightarrow> pyobj option" where
  "parse ts =
     (case run ([], WantValue) ts of
        Some (st, Finished v) \<Rightarrow> Some v
      | _ \<Rightarrow> None)"

text \<open>
  The decoder on text: a byte order mark at the start is refused, then the whole text
  must be one value with white space around it.
\<close>

definition decode_json :: "pystr \<Rightarrow> pyobj option" where
  "decode_json s =
     (if take 1 s = [0xFEFF] then None
      else (case lex s of None \<Rightarrow> None | Some ts \<Rightarrow> parse ts))"

text \<open>
  \<open>json.loads(s)\<close>: an argument that is not text raises \<open>TypeError\<close>; on text the
  result is the decoder's, \<open>None\<close> standing for \<open>JSONDecodeError\<close>.
\<close>

fun json_loads :: "pyobj \<Rightarrow> exn + pyobj option" where
  "json_loads (PyStr s) = Inr (decode_json s)"
| "json_loads v =
     Inl (Exn ''TypeError''
       (str ''the JSON object must be str, bytes or bytearray, not '' @ type_name v))"

subsection \<open>json.dumps\<close>

text \<open>
  The handler serialises dicts whose values are strings and ints. With the default
  \<open>ensure_ascii\<close>, a string is written between quotes with the quote, the backslash
  and everything outside the printable ASCII range escaped; the members are separated
  by a comma and a space, key and value by a colon and a space.
\<close>

datatype jvalue = JString pystr | JInteger int

definition escape_char :: "nat \<Rightarrow> pystr" where
  "escape_char c =
     (if c = 0x22 then [0x5C, 0x22]
      else if c = 0x5C then [0x5C, 0x5C]
      else if 0x20 \<le> c \<and> c \<le> 0x7E then [c]
      else if c = 0x08 then [0x5C, ord CHR ''b'']
      else if c = 0x0C then [0x5C, ord CHR ''f'']
      else if c = 0x0A then [0x5C, ord CHR ''n'']
      else if c = 0x0D then [0x5C, ord CHR ''r'']
      else if c = 0x09 then [0x5C, ord CHR ''t'']
      else if c < 0x10000 then [0x5C, ord CHR ''u''] @ hex4 c
      else [0x5C, ord CHR ''u''] @ hex4 (0xD800 + (c - 0x10000) div 1024 mod 1024) @
           [0x5C, ord CHR ''u''] @ hex4 (0xDC00 + (c - 0x10000) mod 1024))"

definition encode_basestring_ascii :: "pystr \<Rightarrow> pystr" where
  "encode_basestring_ascii s = [0x22] @ concat (map escape_char s) @ [0x22]"

fun dumps_value :: "jvalue \<Rightarrow> pystr" where
  "dumps_value (JString s) = encode_basestring_ascii s"
| "dumps_value (JInteger i) = int_repr i"

fun join :: "pystr \<Rightarrow> pystr list \<Rightarrow> pystr" where
  "join sep [] = []"
| "join sep [x] = x"
| "join sep (x # y # ys) = x @ sep @ join sep (y # ys)"

definition json_dumps :: "(pystr \<times> jvalue) list \<Rightarrow> pystr" where
  "json_dumps d =
     str ''{'' @
     join (str '', '')
       (map (\<lambda>(k, v). encode_basestring_ascii k @ str '': '' @ dumps_value v) d) @
     str ''}''"

subsection \<open>datetime.strftime\<close>

text \<open>
  A naive UTC date and time, as \<open>datetime.utcnow()\<close> returns it, and the format
  \<open>"%Y-%m-%dT%H-%M-%SZ"\<close>: every field but the year is padded to two digits.
\<close>

record datetime =
  year :: nat
  month :: nat
  day :: nat
  hour :: nat
  minute :: nat
  second :: nat

definition strftime :: "datetime \<Rightarrow> pystr" where
  "strftime t =
     decimal (year t) @ str ''-'' @ zero_pad 2 (decimal (month t)) @ str ''-'' @
     zero_pad 2 (decimal (day t)) @ str ''T'' @ zero_pad 2 (decimal (hour t)) @ str ''-'' @
     zero_pad 2 (decimal (minute t)) @ str ''-'' @ zero_pad 2 (decimal (second t)) @
     str ''Z''"

section \<open>The world outside the handler\<close>

text \<open>
  What the handler cannot decide itself is a parameter of the model: the environment
  variables, the two services, the clock and the character database.

  \<^item> \<open>invoke_model\<close> stands for lines 50 to 59 of the source: the call of Bedrock, the
    read of the streaming body and \<open>json.loads\<close> of the bytes. It gives the decoded
    response, or the exception any of the three raised.
  \<^item> \<open>put_object\<close> stands for the creation of the S3 client and its \<open>put_object\<close>
    call: it returns nothing, or raises.
  \<^item> \<open>unicode_isalnum\<close> is \<open>str.isalnum\<close> on the code points above ASCII.

  The calls made to the services are recorded in a log, in order.
\<close>

record invoke_args =
  prompt :: pystr
  max_gen_len :: int
  temperature :: pyfloat
  top_p :: pyfloat
  modelId :: pystr
  accept :: pystr
  contentType :: pystr

record put_args =
  Bucket :: pystr
  Key :: pystr
  Body :: pybytes
  ContentType :: pystr

datatype call = InvokeModel invoke_args | PutObject put_args

record world =
  environ :: "(pystr \<times> pystr) list"
  invoke_model :: "invoke_args \<Rightarrow> exn + pyobj"
  put_object :: "put_args \<Rightarrow> exn + unit"
  utcnow :: datetime
  unicode_isalnum :: "nat \<Rightarrow> bool"

text \<open>\<open>os.environ.get(name, default)\<close>, and the configuration read with it.\<close>

definition environ_get :: "world \<Rightarrow> pystr \<Rightarrow> pystr \<Rightarrow> pystr" where
  "environ_get w name dflt =
     (case map_of (environ w) name of None \<Rightarrow> dflt | Some v \<Rightarrow> v)"

definition AWS_REGION :: "world \<Rightarrow> pystr" where
  "AWS_REGION w = environ_get w (str ''AWS_REGION'') (str ''us-east-1'')"

definition BEDROCK_MODEL_ID :: "world \<Rightarrow> pystr" where
  "BEDROCK_MODEL_ID w =
     environ_get w (str ''BEDROCK_MODEL_ID'') (str ''us.meta.llama3-1-8b-instruct-v1:0'')"

definition S3_BUCKET :: "world \<Rightarrow> pystr" where
  "S3_BUCKET w = environ_get w (str ''BLOG_S3_BUCKET'') (str ''bedrock-demo-blogs'')"

section \<open>The handler\<close>

record response =
  statusCode :: int
  headers :: "(pystr \<times> pystr) list"
  body :: pystr

text \<open>
  \<open>_ok(body, status, headers)\<close>: the envelope. The headers are the content type,
  updated with the caller's headers when there are any.
\<close>

definition ok ::
  "(pystr \<times> jvalue) list \<Rightarrow> int \<Rightarrow> (pystr \<times> pystr) list option \<Rightarrow> response" where
  "ok payload status hdrs =
     \<lparr> statusCode = status,
       headers =
         foldl (\<lambda>d (k, v). AList.update k v d)
           [(str ''Content-Type'', str ''application/json'')]
           (case hdrs of None \<Rightarrow> [] | Some h \<Rightarrow> h),
       body = json_dumps payload \<rparr>"

text \<open>\<open>_error(message, status)\<close>.\<close>

definition error :: "pystr \<Rightarrow> int \<Rightarrow> response" where
  "error message status = ok [(str ''error'', JString message)] status None"

text \<open>
  Lines 41 to 55, the request \<open>generate_blog\<close> sends: the prompt around the topic and
  the fixed parameters (0.5 and 0.9 as decimal literals).
\<close>

definition generation_request :: "world \<Rightarrow> pystr \<Rightarrow> invoke_args" where
  "generation_request w topic =
     \<lparr> prompt = str ''<s>[INST]Human: Write a ~250-word blog on the topic: '' @ topic @
                str ''. Assistant:[/INST]'',
       max_gen_len = 512,
       temperature = Finite False 5 (- 1),
       top_p = Finite False 9 (- 1),
       modelId = BEDROCK_MODEL_ID w,
       accept = str ''application/json'',
       contentType = str ''application/json'' \<rparr>"

text \<open>
  \<open>generate_blog(topic)\<close>: the request is sent, then the result is the text under
  \<open>generation\<close> in the response, or the empty string when that is falsy, stripped.
\<close>

definition generate_blog ::
  "world \<Rightarrow> pystr \<Rightarrow> call list \<Rightarrow> (exn + pystr) \<times> call list" where
  "generate_blog w topic calls =
     (let args = generation_request w topic
      in (and_then (invoke_model w args) (\<lambda>data.
            and_then (py_get data (str ''generation'')) (\<lambda>generation.
              py_strip (py_or generation (PyStr [])))),
          calls @ [InvokeModel args]))"

text \<open>
  \<open>save_blog_to_s3(key, content)\<close>: the content is encoded before the call is made, so
  text that cannot be encoded raises without a call. \<open>storage_request\<close> is the argument
  list of lines 69 to 72.
\<close>

definition storage_request :: "world \<Rightarrow> pystr \<Rightarrow> pybytes \<Rightarrow> put_args" where
  "storage_request w key bytes =
     \<lparr> Bucket = S3_BUCKET w, Key = key, Body = bytes,
       ContentType = str ''text/plain; charset=utf-8'' \<rparr>"

definition save_blog_to_s3 ::
  "world \<Rightarrow> pystr \<Rightarrow> pystr \<Rightarrow> call list \<Rightarrow> (exn + unit) \<times> call list" where
  "save_blog_to_s3 w key content calls =
     (case encode_utf8 content of
        Inl e \<Rightarrow> (Inl e, calls)
      | Inr bytes \<Rightarrow>
          (let args = storage_request w key bytes
           in (put_object w args, calls @ [PutObject args])))"

text \<open>
  \<open>_parse_event_body(event)\<close>. The event is a dict. A missing or null body gives the
  empty dict. Otherwise the body is decoded from base64 when the flag is truthy
  (\<open>decoded_body\<close>, lines 83 to 85) and handed to \<open>json.loads\<close>, where only
  \<open>JSONDecodeError\<close> is caught and gives the empty dict (\<open>loads_or_empty\<close>, lines 86
  to 89).
\<close>

definition decoded_body :: "pydict \<Rightarrow> pyobj \<Rightarrow> exn + pyobj" where
  "decoded_body event body_str =
     (if truthy (dict_get event (str ''isBase64Encoded''))
      then and_then (b64decode body_str) (\<lambda>b. Inr (PyStr (decode_utf8_replace b)))
      else Inr body_str)"

definition loads_or_empty :: "pyobj \<Rightarrow> exn + pyobj" where
  "loads_or_empty body_str =
     and_then (json_loads body_str) (\<lambda>r.
       case r of None \<Rightarrow> Inr (PyDict []) | Some v \<Rightarrow> Inr v)"

definition parse_event_body :: "pydict \<Rightarrow> exn + pyobj" where
  "parse_event_body event =
     (case map_of event (str ''body'') of
        None \<Rightarrow> Inr (PyDict [])
      | Some PyNone \<Rightarrow> Inr (PyDict [])
      | Some body_str \<Rightarrow> and_then (decoded_body event body_str) loads_or_empty)"

text \<open>
  Line 95, the topic of a decoded body:
  \<open>(body.get("blogstopic") or body.get("topic") or "").strip()\<close>.
\<close>

definition request_topic :: "pyobj \<Rightarrow> exn + pystr" where
  "request_topic parsed =
     and_then (py_get parsed (str ''blogstopic'')) (\<lambda>blogstopic.
       and_then
         (if truthy blogstopic then Inr blogstopic
          else and_then (py_get parsed (str ''topic'')) (\<lambda>topic. Inr (py_or topic (PyStr []))))
         py_strip)"

text \<open>
  Line 111, the topic made safe for a key; lines 110 and 112, the key; line 124, the
  preview.
\<close>

definition safe_topic :: "world \<Rightarrow> pystr \<Rightarrow> pystr" where
  "safe_topic w topic =
     (let kept = strip (filter (\<lambda>c. isalnum (unicode_isalnum w) c \<or>
                                     c = ord CHR ''-'' \<or> c = ord CHR ''_'') topic)
      in if kept \<noteq> [] then kept else str ''blog'')"

definition s3_key :: "world \<Rightarrow> pystr \<Rightarrow> pystr" where
  "s3_key w topic =
     (let ts = strftime (utcnow w)
      in str ''blogs/'' @ safe_topic w topic @ str ''_'' @ ts @ str ''.txt'')"

definition preview :: "pystr \<Rightarrow> pystr" where
  "preview blog_text =
     take 200 blog_text @ (if length blog_text > 200 then str ''...'' else [])"

text \<open>
  \<open>lambda_handler(event, context)\<close>; the context is not used, and \<open>parsed\<close> is the
  source's variable \<open>body\<close>. The result is the response or the exception that leaves
  the handler, together with the calls made.
\<close>

definition lambda_handler :: "world \<Rightarrow> pydict \<Rightarrow> (exn + response) \<times> call list" where
  "lambda_handler w event =
     (case parse_event_body event of
        Inl e \<Rightarrow> (Inl e, [])
      | Inr parsed \<Rightarrow>
          (case request_topic parsed of
             Inl e \<Rightarrow> (Inl e, [])
           | Inr topic \<Rightarrow>
               if topic = [] then
                 (Inr (error (str ''Missing required field 'blogstopic' in request body.'') 400),
                  [])
               else
                 (case generate_blog w topic [] of
                    (Inl e, calls) \<Rightarrow>
                      (Inr (error (str ''Error generating blog: '' @ exn_str e) 502), calls)
                  | (Inr blog_text, calls) \<Rightarrow>
                      if blog_text = [] then
                        (Inr (error (str ''Model returned empty content.'') 502), calls)
                      else
                        (let key = s3_key w topic
                         in case save_blog_to_s3 w key blog_text calls of
                              (Inl e, calls') \<Rightarrow>
                                (Inr (error (str ''Failed to save to S3: '' @ exn_str e) 502),
                                 calls')
                            | (Inr u, calls') \<Rightarrow>
                                (Inr (ok
                                   [(str ''message'', JString (str ''Blog generated and saved.'')),
                                    (str ''s3_bucket'', JString (S3_BUCKET w)),
                                    (str ''s3_key'', JString key),
                                    (str ''length_chars'', JInteger (int (length blog_text))),
                                    (str ''preview'', JString (preview blog_text))]
                                   200 None),
                                 calls')))))"

section \<open>Sample events and worlds\<close>

text \<open>
  Concrete inputs on which the theorems below are run. The request body of the
  end-to-end example is the text \<open>{"blogstopic": "Coffee!!"}\<close>; \<open>dquoted\<close> puts a
  string between double quotes.
\<close>

definition dquoted :: "pystr \<Rightarrow> pystr" where
  "dquoted s = [0x22] @ s @ [0x22]"

definition coffee_body :: pystr where
  "coffee_body =
     str ''{'' @ dquoted (str ''blogstopic'') @ str '': '' @ dquoted (str ''Coffee!!'') @
     str ''}''"

definition coffee_event :: pydict where
  "coffee_event = [(str ''body'', PyStr coffee_body)]"

definition coffee_text :: pystr where
  "coffee_text = str ''A short text about coffee.''"

text \<open>The same body in base64, flagged with the string \<open>"false"\<close>, which is truthy.\<close>

definition coffee_event_base64 :: pydict where
  "coffee_event_base64 =
     [(str ''body'', PyStr (str ''eyJibG9nc3RvcGljIjogIkNvZmZlZSEhIn0='')),
      (str ''isBase64Encoded'', PyStr (str ''false''))]"

text \<open>
  The body \<open>{"blogstopic": " ", "topic": "x"}\<close>: a blank first field and a second
  field that is not blank.
\<close>

definition blank_first_event :: pydict where
  "blank_first_event =
     [(str ''body'', PyStr
        (str ''{'' @ dquoted (str ''blogstopic'') @ str '': '' @ dquoted (str '' '') @
         str '', '' @ dquoted (str ''topic'') @ str '': '' @ dquoted (str ''x'') @ str ''}''))]"

text \<open>A body that is not JSON, a body that is not base64, and a body that is a list.\<close>

definition malformed_event :: pydict where
  "malformed_event = [(str ''body'', PyStr (str ''{not json''))]"

definition bad_base64_event :: pydict where
  "bad_base64_event =
     [(str ''body'', PyStr (str ''a'')), (str ''isBase64Encoded'', PyBool True)]"

definition list_body_event :: pydict where
  "list_body_event = [(str ''body'', PyStr (str ''[]''))]"

text \<open>
  A character database that knows the letters and numbers of Latin-1 and nothing
  beyond, and a clock.
\<close>

definition latin1_isalnum :: "nat \<Rightarrow> bool" where
  "latin1_isalnum c \<longleftrightarrow>
     c \<in> {0xAA, 0xB2, 0xB3, 0xB5, 0xB9, 0xBA, 0xBC, 0xBD, 0xBE} \<or>
     (0xC0 \<le> c \<and> c \<le> 0xFF \<and> c \<noteq> 0xD7 \<and> c \<noteq> 0xF7)"

definition sample_clock :: datetime where
  "sample_clock =
     \<lparr> year = 2024, month = 5, day = 6, hour = 7, minute = 8, second = 9 \<rparr>"

text \<open>
  The world of the end-to-end example: generation returns the coffee text and the
  write succeeds. Then a world whose model answers with blanks, one whose generation
  call fails and one whose write fails.
\<close>

definition coffee_world :: world where
  "coffee_world =
     \<lparr> environ = [],
       invoke_model = (\<lambda>args. Inr (PyDict [(str ''generation'', PyStr coffee_text)])),
       put_object = (\<lambda>args. Inr ()),
       utcnow = sample_clock,
       unicode_isalnum = latin1_isalnum \<rparr>"

definition blank_model_world :: world where
  "blank_model_world =
     coffee_world
       \<lparr> invoke_model := (\<lambda>args. Inr (PyDict [(str ''generation'', PyStr (str ''  ''))])) \<rparr>"

definition generation_down_world :: world where
  "generation_down_world =
     coffee_world
       \<lparr> invoke_model :=
           (\<lambda>args. Inl (Exn ''ReadTimeoutError'' (str ''Read timeout on endpoint URL''))) \<rparr>"

definition storage_down_world :: world where
  "storage_down_world =
     coffee_world
       \<lparr> put_object := (\<lambda>args. Inl (Exn ''ClientError'' (str ''Access Denied''))) \<rparr>"

text \<open>An event whose topic is three spaces: the body \<open>{"blogstopic": "   "}\<close>.\<close>

definition spaces_event :: pydict where
  "spaces_event =
     [(str ''body'', PyStr
        (str ''{'' @ dquoted (str ''blogstopic'') @ str '': '' @ dquoted (str ''   '') @
         str ''}''))]"

section \<open>The paths through the handler\<close>

text \<open>
  One lemma for each way out of \<open>lambda_handler\<close>: the response and the calls made,
  from what the steps before returned.
\<close>

lemma and_then_Inr [simp]: "and_then (Inr x) f = f x"
  by (simp add: and_then_def)

lemma and_then_Inl [simp]: "and_then (Inl e) f = Inl e"
  by (simp add: and_then_def)

lemma strip_Nil [simp]: "strip [] = []"
  by (simp add: strip_def)

lemma error_envelope:
  "error message status =
     \<lparr> statusCode = status,
       headers = [(str ''Content-Type'', str ''application/json'')],
       body = json_dumps [(str ''error'', JString message)] \<rparr>"
  by (simp add: error_def ok_def)

lemma ok_envelope:
  "ok payload status None =
     \<lparr> statusCode = status,
       headers = [(str ''Content-Type'', str ''application/json'')],
       body = json_dumps payload \<rparr>"
  by (simp add: ok_def)

lemma snd_generate_blog:
  "snd (generate_blog w topic calls) = calls @ [InvokeModel (generation_request w topic)]"
  by (simp add: generate_blog_def Let_def)

lemma generate_blog_result:
  "generate_blog w topic [] =
     (fst (generate_blog w topic []), [InvokeModel (generation_request w topic)])"
  using snd_generate_blog [of w topic "[]"] by (cases "generate_blog w topic []") simp

lemma handler_blank_topic:
  assumes "parse_event_body event = Inr parsed" and "request_topic parsed = Inr []"
  shows "lambda_handler w event =
    (Inr (error (str ''Missing required field 'blogstopic' in request body.'') 400), [])"
  using assms by (simp add: lambda_handler_def)

lemma handler_generation_raises:
  assumes "parse_event_body event = Inr parsed" and "request_topic parsed = Inr topic"
    and "topic \<noteq> []" and "fst (generate_blog w topic []) = Inl e"
  shows "lambda_handler w event =
    (Inr (error (str ''Error generating blog: '' @ exn_str e) 502),
     [InvokeModel (generation_request w topic)])"
  using assms generate_blog_result [of w topic] by (simp add: lambda_handler_def)

lemma handler_empty_content:
  assumes "parse_event_body event = Inr parsed" and "request_topic parsed = Inr topic"
    and "topic \<noteq> []" and "fst (generate_blog w topic []) = Inr []"
  shows "lambda_handler w event =
    (Inr (error (str ''Model returned empty content.'') 502),
     [InvokeModel (generation_request w topic)])"
  using assms generate_blog_result [of w topic] by (simp add: lambda_handler_def)

lemma handler_storage_raises:
  assumes "parse_event_body event = Inr parsed" and "request_topic parsed = Inr topic"
    and "topic \<noteq> []" and "fst (generate_blog w topic []) = Inr blog_text"
    and "blog_text \<noteq> []" and "encode_utf8 blog_text = Inr bytes"
    and "put_object w (storage_request w (s3_key w topic) bytes) = Inl e"
  shows "lambda_handler w event =
    (Inr (error (str ''Failed to save to S3: '' @ exn_str e) 502),
     [InvokeModel (generation_request w topic),
      PutObject (storage_request w (s3_key w topic) bytes)])"
  using assms generate_blog_result [of w topic]
  by (simp add: lambda_handler_def save_blog_to_s3_def Let_def)

lemma handler_success:
  assumes "parse_event_body event = Inr parsed" and "request_topic parsed = Inr topic"
    and "topic \<noteq> []" and "fst (generate_blog w topic []) = Inr blog_text"
    and "blog_text \<noteq> []" and "encode_utf8 blog_text = Inr bytes"
    and "put_object w (storage_request w (s3_key w topic) bytes) = Inr u"
  shows "lambda_handler w event =
    (Inr (ok [(str ''message'', JString (str ''Blog generated and saved.'')),
              (str ''s3_bucket'', JString (S3_BUCKET w)),
              (str ''s3_key'', JString (s3_key w topic)),
              (str ''length_chars'', JInteger (int (length blog_text))),
              (str ''preview'', JString (preview blog_text))] 200 None),
     [InvokeModel (generation_request w topic),
      PutObject (storage_request w (s3_key w topic) bytes)])"
  using assms generate_blog_result [of w topic]
  by (simp add: lambda_handler_def save_blog_to_s3_def Let_def)

lemma handler_first_call:
  assumes "parse_event_body event = Inr parsed" and "request_topic parsed = Inr topic"
    and "topic \<noteq> []"
  shows "hd (snd (lambda_handler w event)) = InvokeModel (generation_request w topic)"
  using assms generate_blog_result [of w topic]
  by (cases "fst (generate_blog w topic [])")
     (auto simp: lambda_handler_def save_blog_to_s3_def Let_def
           split: sum.splits prod.splits)

section \<open>The claims\<close>

text \<open>
  Claim C4. For every inbound event whose extracted topic is empty after trimming,
  \<open>lambda_handler\<close> returns status 400 and makes no call: neither the generation
  backend nor the storage write is invoked. The extracted topic is the result of line
  95, which ends with the trimming.
\<close>

theorem blank_topic_is_rejected_without_calls:
  assumes "parse_event_body event = Inr parsed" and "request_topic parsed = Inr []"
  shows "lambda_handler w event =
           (Inr \<lparr> statusCode = 400,
                  headers = [(str ''Content-Type'', str ''application/json'')],
                  body = json_dumps [(str ''error'',
                    JString (str ''Missing required field 'blogstopic' in request body.''))] \<rparr>,
            [])"
  using handler_blank_topic [OF assms] by (simp add: error_envelope)

theorem blank_topic_is_rejected_without_calls_witness:
  "parse_event_body spaces_event = Inr (PyDict [(str ''blogstopic'', PyStr (str ''   ''))]) \<and>
   request_topic (PyDict [(str ''blogstopic'', PyStr (str ''   ''))]) = Inr [] \<and>
   lambda_handler coffee_world spaces_event =
     (Inr \<lparr> statusCode = 400,
            headers = [(str ''Content-Type'', str ''application/json'')],
            body = json_dumps [(str ''error'',
              JString (str ''Missing required field 'blogstopic' in request body.''))] \<rparr>,
      [])"
proof -
  have p: "parse_event_body spaces_event =
      Inr (PyDict [(str ''blogstopic'', PyStr (str ''   ''))])"
    by code_simp
  have t: "request_topic (PyDict [(str ''blogstopic'', PyStr (str ''   ''))]) = Inr []"
    by code_simp
  from blank_topic_is_rejected_without_calls [OF p t, of coffee_world] p t
  show ?thesis by simp
qed

end
